theory Spec2Isabelle
  imports Complex_Main "HOL-Library.Word"
begin

text \<open>
  A model of the credential exchange of configure-aws-credentials: \<open>assumeRole\<close> with
  its two sanitizers \<open>sanitizeGithubWorkflowName\<close> and \<open>sanitizeGithubActor\<close>, from
  \<open>dist/assumeRole.js\<close>, and \<open>sanitizeGitHubVariables\<close> and \<open>retryAndBackoff\<close> from the
  helpers module. Line numbers are those of the source files.
\<close>

section \<open>JavaScript strings\<close>

text \<open>
  A JavaScript string is a sequence of UTF-16 code units: \<open>length\<close> and \<open>slice\<close>
  count code units, while a regular expression with the \<open>u\<close> flag reads the string
  code point by code point, a lead surrogate followed by a trail surrogate being one
  code point of two units.
\<close>

type_synonym code_unit = "16 word"
type_synonym js_string = "code_unit list"

definition js :: "string \<Rightarrow> js_string" where
  "js s = map of_char s"

definition isLeadSurrogate :: "code_unit \<Rightarrow> bool" where
  "isLeadSurrogate u = (0xD800 \<le> u \<and> u \<le> 0xDBFF)"

definition isTrailSurrogate :: "code_unit \<Rightarrow> bool" where
  "isTrailSurrogate u = (0xDC00 \<le> u \<and> u \<le> 0xDFFF)"

definition codePointOfPair :: "code_unit \<Rightarrow> code_unit \<Rightarrow> nat" where
  "codePointOfPair lead trail =
     0x10000 + (unat lead - 0xD800) * 0x400 + (unat trail - 0xDC00)"

text \<open>
  The Unicode property escapes of the two regular expressions, \<open>\p{L}\<close>, \<open>\p{Z}\<close> and
  \<open>\p{N}\<close>, are tables of the Unicode Character Database, which is no part of the
  repository: they are a parameter of the model, together with \<open>\p{M}\<close>, which the
  specification's character class names and the code's does not.
\<close>

record unicode_data =
  Letter :: "nat \<Rightarrow> bool"
  Mark :: "nat \<Rightarrow> bool"
  Separator :: "nat \<Rightarrow> bool"
  Number :: "nat \<Rightarrow> bool"

text \<open>
  An excerpt of the database for concrete runs: Basic Latin letters and digits, the
  space, the combining diacritical marks U+0300 to U+036F and the mathematical bold
  capitals U+1D400 to U+1D419 (letters outside the Basic Multilingual Plane). Surrogate
  code points U+D800 to U+DFFF have the category Cs and are in none of the four classes.
\<close>

definition ucd_excerpt :: unicode_data where
  "ucd_excerpt = \<lparr>
     Letter = (\<lambda>cp. (0x41 \<le> cp \<and> cp \<le> 0x5A) \<or> (0x61 \<le> cp \<and> cp \<le> 0x7A)
                    \<or> (0x1D400 \<le> cp \<and> cp \<le> 0x1D419)),
     Mark = (\<lambda>cp. 0x300 \<le> cp \<and> cp \<le> 0x36F),
     Separator = (\<lambda>cp. cp = 0x20),
     Number = (\<lambda>cp. 0x30 \<le> cp \<and> cp \<le> 0x39) \<rparr>"

text \<open>
  \<open>str.replace(/[^...]/gu, r)\<close> for a negated character class: every code point the
  class does not hold is replaced by the one-unit string \<open>r\<close>; a surrogate pair is
  matched as one code point, any other unit (a lone surrogate too) as the code point of
  its own value.
\<close>

fun replace_outside_u :: "(nat \<Rightarrow> bool) \<Rightarrow> code_unit \<Rightarrow> js_string \<Rightarrow> js_string" where
  "replace_outside_u cls r [] = []"
| "replace_outside_u cls r [u] = (if cls (unat u) then [u] else [r])"
| "replace_outside_u cls r (u # v # rest) =
     (if isLeadSurrogate u \<and> isTrailSurrogate v
      then (if cls (codePointOfPair u v) then u # v # replace_outside_u cls r rest
            else r # replace_outside_u cls r rest)
      else (if cls (unat u) then u else r) # replace_outside_u cls r (v # rest))"

text \<open>\<open>str.replace(/\[|\]/g, r)\<close>: no \<open>u\<close> flag, the pattern matches single units.\<close>

definition replace_brackets :: "code_unit \<Rightarrow> js_string \<Rightarrow> js_string" where
  "replace_brackets r s =
     map (\<lambda>u. if u = of_char CHR ''['' \<or> u = of_char CHR '']'' then r else u) s"

section \<open>Tag sanitizers\<close>

definition SANITIZATION_CHARACTER :: code_unit where
  "SANITIZATION_CHARACTER = of_char CHR ''_''"

definition MAX_TAG_VALUE_LENGTH :: nat where
  "MAX_TAG_VALUE_LENGTH = 256"

text \<open>
  The helpers module, \<open>sanitizeGitHubVariables\<close>: the class \<open>[\p{L}\p{Z}\p{N}_.:/=+\-@]\<close>.
\<close>

definition github_variable_class :: "unicode_data \<Rightarrow> nat \<Rightarrow> bool" where
  "github_variable_class ucd cp =
     (Letter ucd cp \<or> Separator ucd cp \<or> Number ucd cp
      \<or> cp = of_char CHR ''_'' \<or> cp = of_char CHR ''.'' \<or> cp = of_char CHR '':''
      \<or> cp = of_char CHR ''/'' \<or> cp = of_char CHR ''='' \<or> cp = of_char CHR ''+''
      \<or> cp = of_char CHR ''-'' \<or> cp = of_char CHR ''@'')"

definition sanitizeGitHubVariables :: "unicode_data \<Rightarrow> js_string \<Rightarrow> js_string" where
  "sanitizeGitHubVariables ucd name =
     (let nameWithoutSpecialCharacters =
            replace_outside_u (github_variable_class ucd) SANITIZATION_CHARACTER name;
          nameTruncated = take MAX_TAG_VALUE_LENGTH nameWithoutSpecialCharacters
      in nameTruncated)"

text \<open>
  dist/assumeRole.js, \<open>sanitizeGithubWorkflowName\<close>: the class
  \<open>[\p{L}\p{Z}\p{N}_:/=+.-@-]\<close>, in which \<open>.-@\<close> is the range from \<open>.\<close> (U+002E) to
  \<open>@\<close> (U+0040) and the last \<open>-\<close> is literal.
\<close>

definition workflow_name_class :: "unicode_data \<Rightarrow> nat \<Rightarrow> bool" where
  "workflow_name_class ucd cp =
     (Letter ucd cp \<or> Separator ucd cp \<or> Number ucd cp
      \<or> cp = of_char CHR ''_'' \<or> cp = of_char CHR '':'' \<or> cp = of_char CHR ''/''
      \<or> cp = of_char CHR ''='' \<or> cp = of_char CHR ''+''
      \<or> (of_char CHR ''.'' \<le> cp \<and> cp \<le> of_char CHR ''@'')
      \<or> cp = of_char CHR ''-'')"

definition sanitizeGithubWorkflowName :: "unicode_data \<Rightarrow> js_string \<Rightarrow> js_string" where
  "sanitizeGithubWorkflowName ucd name =
     (let nameWithoutSpecialCharacters =
            replace_outside_u (workflow_name_class ucd) SANITIZATION_CHARACTER name;
          nameTruncated = take MAX_TAG_VALUE_LENGTH nameWithoutSpecialCharacters
      in nameTruncated)"

definition sanitizeGithubActor :: "js_string \<Rightarrow> js_string" where
  "sanitizeGithubActor actor = replace_brackets SANITIZATION_CHARACTER actor"

text \<open>
  The character class of a session-tag value as the specification words it: letter,
  mark, space separator, digit and the literals \<open>_ . : / = + - @\<close>, the separators and
  digits read as widely as the code's \<open>\p{Z}\<close> and \<open>\p{N}\<close>. A string conforms when each
  of its code points, read as the \<open>u\<close> flag reads them, is in the class.
\<close>

definition tag_value_class :: "unicode_data \<Rightarrow> nat \<Rightarrow> bool" where
  "tag_value_class ucd cp =
     (Letter ucd cp \<or> Mark ucd cp \<or> Separator ucd cp \<or> Number ucd cp
      \<or> cp = of_char CHR ''_'' \<or> cp = of_char CHR ''.'' \<or> cp = of_char CHR '':''
      \<or> cp = of_char CHR ''/'' \<or> cp = of_char CHR ''='' \<or> cp = of_char CHR ''+''
      \<or> cp = of_char CHR ''-'' \<or> cp = of_char CHR ''@'')"

fun code_points :: "js_string \<Rightarrow> nat list" where
  "code_points [] = []"
| "code_points [u] = [unat u]"
| "code_points (u # v # rest) =
     (if isLeadSurrogate u \<and> isTrailSurrogate v
      then codePointOfPair u v # code_points rest
      else unat u # code_points (v # rest))"

definition conforms :: "unicode_data \<Rightarrow> js_string \<Rightarrow> bool" where
  "conforms ucd s = list_all (tag_value_class ucd) (code_points s)"

section \<open>Retry with backoff\<close>

text \<open>
  The effects of \<open>retryAndBackoff\<close> are made explicit in a world: the state the
  operation \<open>fn\<close> reads and updates, a count of the calls of \<open>fn\<close>, the arguments
  passed to \<open>sleep\<close> in order, and the number of values drawn from \<open>Math.random\<close>.
  The \<open>k\<close>-th value of \<open>Math.random\<close> is \<open>random k\<close>, a parameter. The counter
  \<open>retries\<close> is a natural number; the delay is a JavaScript number.
\<close>

subsection \<open>JavaScript numbers\<close>

text \<open>
  A JavaScript number is an IEEE 754 double: a real that the format represents (the two
  zeros are not told apart), an infinity or NaN. The result of a multiplication is the
  exact product rounded to the nearest double, a tie going to the even mantissa, and an
  infinity when the rounded value does not fit. The unit in the last place of a double
  of size \<open>a\<close> is \<open>2\<close> to the power \<open>ulp_exponent a\<close>: 52 below the binary exponent of
  \<open>a\<close>, and never below \<open>- 1074\<close>, the exponent of the subnormal doubles.
\<close>

datatype js_number = Num real | PosInfinity | NegInfinity | NaN

definition round_half_even :: "real \<Rightarrow> int" where
  "round_half_even q =
     (let f = \<lfloor>q\<rfloor>; d = q - of_int f
      in if d < 1 / 2 then f else if 1 / 2 < d then f + 1 else if even f then f else f + 1)"

definition ulp_exponent :: "real \<Rightarrow> int" where
  "ulp_exponent a = max (\<lfloor>log 2 a\<rfloor> - 52) (- 1074)"

definition round_double :: "real \<Rightarrow> js_number" where
  "round_double p =
     (if p = 0 then Num 0
      else
        let e = ulp_exponent \<bar>p\<bar>;
            v = of_int (round_half_even (\<bar>p\<bar> / 2 powr of_int e)) * 2 powr of_int e
        in if 2 ^ 1024 \<le> v then (if 0 < p then PosInfinity else NegInfinity)
           else Num (sgn p * v))"

text \<open>A real is a double when rounding leaves it as it is.\<close>

definition is_double :: "real \<Rightarrow> bool" where
  "is_double x = (round_double x = Num x)"

fun is_zero :: "js_number \<Rightarrow> bool" where
  "is_zero (Num a) = (a = 0)"
| "is_zero x = False"

fun is_negative :: "js_number \<Rightarrow> bool" where
  "is_negative (Num a) = (a < 0)"
| "is_negative NegInfinity = True"
| "is_negative x = False"

text \<open>
  The operator \<open>*\<close>: NaN if an operand is NaN or the operands are zero and an infinity,
  the rounded product of two finite operands, else the infinity of the product's sign.
\<close>

fun js_mul :: "js_number \<Rightarrow> js_number \<Rightarrow> js_number" where
  "js_mul (Num a) (Num b) = round_double (a * b)"
| "js_mul NaN y = NaN"
| "js_mul x NaN = NaN"
| "js_mul x y =
     (if is_zero x \<or> is_zero y then NaN
      else if is_negative x = is_negative y then PosInfinity else NegInfinity)"

text \<open>\<open>Math.pow(2, n)\<close> for a natural number \<open>n\<close>: the power, or infinity above the range.\<close>

definition Math_pow_2 :: "nat \<Rightarrow> js_number" where
  "Math_pow_2 n = (if n \<le> 1023 then Num (2 ^ n) else PosInfinity)"


subsection \<open>The retry loop\<close>

record 's world =
  op_state :: 's
  invocations :: nat
  sleeps :: "js_number list"
  draws :: nat

definition call :: "('s \<Rightarrow> ('e + 'a) \<times> 's) \<Rightarrow> 's world \<Rightarrow> ('e + 'a) \<times> 's world" where
  "call fn w =
     (case fn (op_state w) of
        (res, s') \<Rightarrow> (res, w\<lparr>op_state := s', invocations := invocations w + 1\<rparr>))"

definition Math_random :: "(nat \<Rightarrow> real) \<Rightarrow> 's world \<Rightarrow> js_number \<times> 's world" where
  "Math_random random w = (Num (random (draws w)), w\<lparr>draws := draws w + 1\<rparr>)"

text \<open>
  \<open>sleep\<close> is \<open>defaultSleep\<close> or a replacement installed by \<open>withsleep\<close>; it is
  modelled as a call that records its argument and returns.
\<close>

definition sleep :: "js_number \<Rightarrow> 's world \<Rightarrow> 's world" where
  "sleep ms w = w\<lparr>sleeps := sleeps w @ [ms]\<rparr>"

text \<open>
  The promise returned by \<open>retryAndBackoff\<close>: resolved with a value, rejected with an
  error, or still pending when the bound on the number of attempts that the model
  follows (its first argument) is used up.
\<close>

datatype ('e, 'a, 's) promise =
  Resolved 'a "'s world"
| Rejected 'e "'s world"
| Pending "'s world"



fun retryAndBackoff ::
  "nat \<Rightarrow> (nat \<Rightarrow> real) \<Rightarrow> ('s \<Rightarrow> ('e + 'a) \<times> 's) \<Rightarrow> bool \<Rightarrow> nat \<Rightarrow> nat
     \<Rightarrow> js_number \<Rightarrow> 's world \<Rightarrow> ('e, 'a, 's) promise" where
  "retryAndBackoff 0 random fn isRetryable retries maxRetries base w = Pending w"
| "retryAndBackoff (Suc fuel) random fn isRetryable retries maxRetries base w =
     (case call fn w of
        (Inr v, w1) \<Rightarrow> Resolved v w1
      | (Inl err, w1) \<Rightarrow>
          if \<not> isRetryable then Rejected err w1
          else
            (case Math_random random w1 of
               (r, w2) \<Rightarrow>
                 let w3 = sleep (js_mul r (js_mul (Math_pow_2 retries) base)) w2;
                     retries' = retries + 1
                 in if retries' = maxRetries then Rejected err w3
                    else retryAndBackoff fuel random fn isRetryable retries' maxRetries base w3))"

text \<open>The state of the operation after \<open>k\<close> calls, and the outcome of the next call.\<close>

definition state_after :: "('s \<Rightarrow> ('e + 'a) \<times> 's) \<Rightarrow> nat \<Rightarrow> 's \<Rightarrow> 's" where
  "state_after fn k s = ((\<lambda>s. snd (fn s)) ^^ k) s"

definition outcome_of_attempt :: "('s \<Rightarrow> ('e + 'a) \<times> 's) \<Rightarrow> nat \<Rightarrow> 's \<Rightarrow> 'e + 'a" where
  "outcome_of_attempt fn k s = fst (fn (state_after fn k s))"

definition always_fails :: "('s \<Rightarrow> ('e + 'a) \<times> 's) \<Rightarrow> bool" where
  "always_fails fn = (\<forall>s. isl (fst (fn s)))"

section \<open>Role assumption\<close>

subsection \<open>Values, objects, errors and effects\<close>

record tag =
  Key :: js_string
  Value :: js_string

text \<open>
  An object is a map from property names to values; a property can be present with
  the value \<open>undefined\<close>, which differs from an absent one until it is deleted.
\<close>

datatype js_value =
  JSUndefined
| JSString js_string
| JSNumber int
| JSTags "tag list"

type_synonym js_object = "string \<rightharpoonup> js_value"

text \<open>
  What a call can throw: an \<open>Error\<close> or an \<open>AssertionError\<close> (from \<open>assert\<close>) with its
  message, or the rejection of \<open>sts.send\<close>, passed on as it is.
\<close>

datatype 'p thrown =
  Error js_string
| AssertionError js_string
| ProviderError 'p

text \<open>The calls that leave \<open>assumeRole\<close>, in the order they are made.\<close>

datatype event =
  Debug js_string
| ExistsSync js_string
| ReadFile js_string
| GetStsClient js_string
| Send js_object

text \<open>
  The collaborators outside the repository are a parameter: Node's \<open>path.isAbsolute\<close>
  and \<open>path.join\<close>, \<open>fs.existsSync\<close>, \<open>fs.promises.readFile\<close> (\<open>Inl\<close> is the message of
  the error it rejects with) and the \<open>send\<close> of the STS client of a region.
\<close>

record ('p, 'r) host =
  path_isAbsolute :: "js_string \<Rightarrow> bool"
  path_join :: "js_string \<Rightarrow> js_string \<Rightarrow> js_string"
  fs_existsSync :: "js_string \<Rightarrow> bool"
  fs_readFile :: "js_string \<Rightarrow> js_string + js_string"
  sts_send :: "js_string \<Rightarrow> js_object \<Rightarrow> 'p + 'r"

text \<open>\<open>process.env\<close>: a variable that is not set reads as \<open>undefined\<close>, here \<open>None\<close>.\<close>

record process_env =
  GITHUB_REPOSITORY :: "js_string option"
  GITHUB_WORKFLOW :: "js_string option"
  GITHUB_ACTION :: "js_string option"
  GITHUB_ACTOR :: "js_string option"
  GITHUB_SHA :: "js_string option"
  GITHUB_WORKSPACE :: "js_string option"
  GITHUB_REF :: "js_string option"

record assumeRoleParams =
  region :: js_string
  roleToAssume :: js_string
  roleDurationSeconds :: int
  roleSessionName :: js_string
  roleSkipSessionTagging :: "bool option"
  sourceAccountId :: "js_string option"
  roleExternalId :: "js_string option"
  webIdentityTokenFile :: "js_string option"
  webIdentityToken :: "js_string option"

text \<open>
  Truthiness of an optional string: \<open>undefined\<close> and the empty string are falsy.
  \<open>string_value\<close> reads an optional string where the code has tested it before.
\<close>

fun truthy :: "js_string option \<Rightarrow> bool" where
  "truthy None = False"
| "truthy (Some s) = (s \<noteq> [])"

fun string_value :: "js_string option \<Rightarrow> js_string" where
  "string_value (Some s) = s"
| "string_value None = []"

definition startsWith :: "js_string \<Rightarrow> js_string \<Rightarrow> bool" where
  "startsWith s prefix = (take (length prefix) s = prefix)"

definition isDefined :: "'a option \<Rightarrow> bool" where
  "isDefined i = (i \<noteq> None)"

text \<open>The decimal digits of a number, as string concatenation converts it.\<close>

fun decimal :: "nat \<Rightarrow> js_string" where
  "decimal n =
     (if n < 10 then [of_nat (48 + n)]
      else decimal (n div 10) @ [of_nat (48 + n mod 10)])"

declare decimal.simps [simp del]

definition optional_string :: "js_string option \<Rightarrow> js_value" where
  "optional_string v = (case v of None \<Rightarrow> JSUndefined | Some s \<Rightarrow> JSString s)"

definition delete_undefined :: "js_object \<Rightarrow> js_object" where
  "delete_undefined obj = (\<lambda>k. if obj k = Some JSUndefined then None else obj k)"

definition delete_property :: "js_object \<Rightarrow> string \<Rightarrow> js_object" where
  "delete_property obj k = obj(k := None)"

subsection \<open>\<open>assumeRole\<close>\<close>

text \<open>Lines 26 to 28: the required environment variables.\<close>

definition missing_environment :: "process_env \<Rightarrow> bool" where
  "missing_environment env =
     (\<not> truthy (GITHUB_REPOSITORY env) \<or> \<not> truthy (GITHUB_WORKFLOW env)
      \<or> \<not> truthy (GITHUB_ACTION env) \<or> \<not> truthy (GITHUB_ACTOR env)
      \<or> \<not> truthy (GITHUB_SHA env) \<or> \<not> truthy (GITHUB_WORKSPACE env))"

text \<open>Lines 29 to 34: the role ARN.\<close>

definition resolveRoleArn :: "js_string \<Rightarrow> js_string option \<Rightarrow> 'p thrown + js_string" where
  "resolveRoleArn role account =
     (if \<not> startsWith role (js ''arn:aws'')
      then (if isDefined account
            then Inr (js ''arn:aws:iam::'' @ string_value account @ js '':role/'' @ role)
            else Inl (AssertionError (js
              ''Source Account ID is needed if the Role Name is provided and not the Role Arn.'')))
      else Inr role)"

text \<open>Lines 35 to 45: the session tags.\<close>

definition tagArray ::
  "unicode_data \<Rightarrow> js_string \<Rightarrow> js_string \<Rightarrow> js_string \<Rightarrow> js_string \<Rightarrow> js_string
     \<Rightarrow> js_string option \<Rightarrow> tag list" where
  "tagArray ucd repository workflow action actor sha ref =
     [\<lparr>Key = js ''GitHub'', Value = js ''Actions''\<rparr>,
      \<lparr>Key = js ''Repository'', Value = repository\<rparr>,
      \<lparr>Key = js ''Workflow'', Value = sanitizeGithubWorkflowName ucd workflow\<rparr>,
      \<lparr>Key = js ''Action'', Value = action\<rparr>,
      \<lparr>Key = js ''Actor'', Value = sanitizeGithubActor actor\<rparr>,
      \<lparr>Key = js ''Commit'', Value = sha\<rparr>]
     @ (if truthy ref then [\<lparr>Key = js ''Branch'', Value = string_value ref\<rparr>] else [])"

text \<open>The value of the first tag with a given key.\<close>

fun tag_value :: "tag list \<Rightarrow> js_string \<Rightarrow> js_string option" where
  "tag_value [] k = None"
| "tag_value (t # ts) k = (if Key t = k then Some (Value t) else tag_value ts k)"

text \<open>Lines 46 to 52: \<open>Tags\<close> and the debug message about it.\<close>

definition sessionTags :: "bool option \<Rightarrow> tag list \<Rightarrow> tag list option" where
  "sessionTags skip tags = (if skip = Some True then None else Some tags)"

definition tagsDebug :: "tag list option \<Rightarrow> event" where
  "tagsDebug Tags =
     (case Tags of
        None \<Rightarrow> Debug (js ''Role session tagging has been skipped.'')
      | Some tags \<Rightarrow>
          Debug (decimal (length tags) @ js '' role session tags are being used.''))"

text \<open>Lines 53 to 61: the common parameters, the \<open>undefined\<close> ones deleted.\<close>

definition commonAssumeRoleParams ::
  "js_string \<Rightarrow> assumeRoleParams \<Rightarrow> tag list option \<Rightarrow> js_object" where
  "commonAssumeRoleParams RoleArn params Tags =
     delete_undefined
       [''RoleArn'' \<mapsto> JSString RoleArn,
        ''RoleSessionName'' \<mapsto> JSString (roleSessionName params),
        ''DurationSeconds'' \<mapsto> JSNumber (roleDurationSeconds params),
        ''Tags'' \<mapsto> (case Tags of None \<Rightarrow> JSUndefined | Some tags \<Rightarrow> JSTags tags),
        ''ExternalId'' \<mapsto> optional_string (roleExternalId params)]"

text \<open>Lines 64 to 71: the case of a truthy \<open>webIdentityToken\<close>.\<close>

definition directTokenFlow ::
  "assumeRoleParams \<Rightarrow> js_object \<Rightarrow> event list \<times> ('p thrown + js_object)" where
  "directTokenFlow params common =
     ([], Inr ((delete_property common ''Tags'')
                 (''WebIdentityToken'' \<mapsto> JSString (string_value (webIdentityToken params)))))"

text \<open>Lines 72 to 92: the case of a truthy \<open>webIdentityTokenFile\<close>.\<close>

definition webIdentityTokenFilePath :: "('p, 'r) host \<Rightarrow> js_string \<Rightarrow> js_string \<Rightarrow> js_string" where
  "webIdentityTokenFilePath host workspace file =
     (if path_isAbsolute host file then file else path_join host workspace file)"

definition tokenFileFlow ::
  "('p, 'r) host \<Rightarrow> js_string \<Rightarrow> assumeRoleParams \<Rightarrow> js_object
     \<Rightarrow> event list \<times> ('p thrown + js_object)" where
  "tokenFileFlow host workspace params common =
     (let file_path = webIdentityTokenFilePath host workspace
                        (string_value (webIdentityTokenFile params));
          calls = [Debug (js (''webIdentityTokenFile provided. Will call ''
                     @ ''sts:AssumeRoleWithWebIdentity and take session tags from token contents.'')),
                   ExistsSync file_path]
      in if \<not> fs_existsSync host file_path
         then (calls, Inl (Error (js ''Web identity token file does not exist: '' @ file_path)))
         else
           (case fs_readFile host file_path of
              Inl message \<Rightarrow>
                (calls @ [ReadFile file_path],
                 Inl (Error (js ''Web identity token file could not be read: '' @ message)))
            | Inr widt \<Rightarrow>
                (calls @ [ReadFile file_path],
                 Inr ((delete_property common ''Tags'')(''WebIdentityToken'' \<mapsto> JSString widt)))))"

text \<open>
  Lines 63 to 95: \<open>switch (true)\<close> takes the first case whose test is true; the result
  is the error thrown or the command built.
\<close>

definition selectFlow ::
  "('p, 'r) host \<Rightarrow> js_string \<Rightarrow> assumeRoleParams \<Rightarrow> js_object
     \<Rightarrow> event list \<times> ('p thrown + js_object)" where
  "selectFlow host workspace params common =
     (if truthy (webIdentityToken params) then directTokenFlow params common
      else if truthy (webIdentityTokenFile params) then tokenFileFlow host workspace params common
      else ([], Inl (Error (js ''No web identity token or web identity token file provided.''))))"

text \<open>
  Lines 96 and 97: when the \<open>switch\<close> has thrown the call is over; otherwise the client
  of the region is created and the command sent.
\<close>

definition dispatch ::
  "('p, 'r) host \<Rightarrow> js_string \<Rightarrow> event list \<times> ('p thrown + js_object)
     \<Rightarrow> event list \<times> ('p thrown + 'r)" where
  "dispatch host region_name flow =
     (case flow of
        (calls, Inl failure) \<Rightarrow> (calls, Inl failure)
      | (calls, Inr assumeRoleCommand) \<Rightarrow>
          (calls @ [GetStsClient region_name, Send assumeRoleCommand],
           (case sts_send host region_name assumeRoleCommand of
              Inl failure \<Rightarrow> Inl (ProviderError failure)
            | Inr response \<Rightarrow> Inr response)))"

text \<open>Lines 35 to 45 at the variables read from \<open>process.env\<close> in line 25.\<close>

definition environmentTags :: "unicode_data \<Rightarrow> process_env \<Rightarrow> tag list" where
  "environmentTags ucd env =
     tagArray ucd
       (string_value (GITHUB_REPOSITORY env))
       (string_value (GITHUB_WORKFLOW env))
       (string_value (GITHUB_ACTION env))
       (string_value (GITHUB_ACTOR env))
       (string_value (GITHUB_SHA env))
       (GITHUB_REF env)"

definition assumeRole ::
  "unicode_data \<Rightarrow> ('p, 'r) host \<Rightarrow> process_env \<Rightarrow> assumeRoleParams
     \<Rightarrow> event list \<times> ('p thrown + 'r)" where
  "assumeRole ucd host env params =
     (if missing_environment env
      then ([], Inl (Error (js
             ''Missing required environment variables. Are you running in GitHub Actions?'')))
      else
        (case resolveRoleArn (roleToAssume params) (sourceAccountId params) of
           Inl failure \<Rightarrow> ([], Inl failure)
         | Inr RoleArn \<Rightarrow>
             let Tags = sessionTags (roleSkipSessionTagging params) (environmentTags ucd env);
                 common = commonAssumeRoleParams RoleArn params Tags
             in (case dispatch host (region params)
                       (selectFlow host (string_value (GITHUB_WORKSPACE env)) params common) of
                   (calls, result) \<Rightarrow> (tagsDebug Tags # calls, result))))"

text \<open>A request whose role is an ARN of the \<open>aws\<close> partition or comes with an account.\<close>

definition roleResolvable :: "assumeRoleParams \<Rightarrow> bool" where
  "roleResolvable params =
     (startsWith (roleToAssume params) (js ''arn:aws'') \<or> isDefined (sourceAccountId params))"

section \<open>Concrete runs\<close>

text \<open>An operation that fails on every call, with a different error on its third call.\<close>

definition failing_op :: "nat \<Rightarrow> (string + unit) \<times> nat" where
  "failing_op n = (Inl (if n = 2 then ''third'' else ''other''), n + 1)"

definition fresh_world :: "nat world" where
  "fresh_world = \<lparr>op_state = 0, invocations = 0, sleeps = [], draws = 0\<rparr>"

text \<open>
  A host with one file, \<open>/work/token.txt\<close>, whose provider accepts every request; its
  \<open>path.join\<close> puts a slash between its arguments, as Node's does for plain names.
\<close>

definition example_host :: "(string, string) host" where
  "example_host = \<lparr>
     path_isAbsolute = (\<lambda>p. startsWith p (js ''/'')),
     path_join = (\<lambda>a b. a @ js ''/'' @ b),
     fs_existsSync = (\<lambda>p. p = js ''/work/token.txt''),
     fs_readFile = (\<lambda>p. if p = js ''/work/token.txt'' then Inr (js ''file-token'')
                          else Inl (js ''ENOENT'')),
     sts_send = (\<lambda>r cmd. Inr ''credentials'') \<rparr>"

definition example_env :: process_env where
  "example_env = \<lparr>
     GITHUB_REPOSITORY = Some (js ''octo/repo''),
     GITHUB_WORKFLOW = Some (js ''build''),
     GITHUB_ACTION = Some (js ''run1''),
     GITHUB_ACTOR = Some (js ''dependabot[bot]''),
     GITHUB_SHA = Some (js ''abc123''),
     GITHUB_WORKSPACE = Some (js ''/work''),
     GITHUB_REF = None \<rparr>"

definition example_params :: assumeRoleParams where
  "example_params = \<lparr>
     region = js ''us-east-1'',
     roleToAssume = js ''arn:aws:iam::111122223333:role/deploy'',
     roleDurationSeconds = 3600,
     roleSessionName = js ''GitHubActions'',
     roleSkipSessionTagging = Some False,
     sourceAccountId = None,
     roleExternalId = None,
     webIdentityTokenFile = Some (js ''token.txt''),
     webIdentityToken = Some (js ''direct-token'') \<rparr>"

text \<open>A string of 255 letters \<open>a\<close> followed by U+1D400, a letter of two code units.\<close>

definition straddling_name :: js_string where
  "straddling_name = replicate 255 (of_char CHR ''a'') @ [0xD835, 0xDC00]"

section \<open>JavaScript numbers: properties\<close>

lemma round_half_even_of_int: "round_half_even (of_int n) = n"
  by (simp add: round_half_even_def)

lemma round_half_even_le:
  assumes "q \<le> of_int n"
  shows "round_half_even q \<le> n"
proof (cases "q = of_int n")
  case True
  then show ?thesis by (simp add: round_half_even_of_int)
next
  case False
  with assms have "q < of_int n" by simp
  then have "\<lfloor>q\<rfloor> < n" by (simp add: floor_less_iff)
  then show ?thesis by (auto simp: round_half_even_def Let_def)
qed






lemma powr_int_diff:
  assumes "u \<le> e"
  shows "(2::real) powr of_int e = 2 ^ nat (e - u) * 2 powr of_int u"
proof -
  have "(2::real) powr of_int e = 2 powr (of_int (e - u) + of_int u)" by simp
  also have "\<dots> = 2 powr of_int (e - u) * 2 powr of_int u" by (rule powr_add)
  also have "(2::real) powr of_int (e - u) = 2 powr real (nat (e - u))" using assms by simp
  also have "\<dots> = 2 ^ nat (e - u)" by (simp add: powr_realpow)
  finally show ?thesis .
qed


lemma is_double_intro:
  assumes "0 < m" and "m < 2 ^ 53" and "- 1074 \<le> e"
    and "real_of_int m * 2 powr of_int e < 2 ^ 1024"
  shows "is_double (of_int m * 2 powr of_int e)"
proof -
  define p :: real where "p = of_int m * 2 powr of_int e"
  define u where "u = ulp_exponent p"
  have p0: "0 < p" using assms(1) by (simp add: p_def)
  have "log 2 p = log 2 (of_int m) + of_int e"
    using assms(1) by (simp add: p_def log_mult)
  then have fl: "\<lfloor>log 2 p\<rfloor> = \<lfloor>log 2 (of_int m)\<rfloor> + e" by simp
  have "real_of_int m < 2 powr 53" using assms(2) by (simp add: powr_realpow [symmetric]) 
  then have "log 2 (of_int m) < 53" using assms(1) by (simp add: log_less_iff)
  then have "\<lfloor>log 2 (of_int m)\<rfloor> < 53" by (simp add: floor_less_iff)
  with fl assms(3) have ue: "u \<le> e" by (simp add: u_def ulp_exponent_def)
  have "p / 2 powr of_int u = of_int (m * 2 ^ nat (e - u))"
    using powr_int_diff [OF ue] by (simp add: p_def)
  then have "round_half_even (p / 2 powr of_int u) = m * 2 ^ nat (e - u)"
    by (simp only: round_half_even_of_int)
  then have "of_int (round_half_even (p / 2 powr of_int u)) * 2 powr of_int u = p"
    using powr_int_diff [OF ue] by (simp add: p_def)
  then have "round_double p = Num p"
    using p0 assms(4) by (simp add: round_double_def Let_def u_def [symmetric] p_def [symmetric])
  then show ?thesis by (simp add: is_double_def p_def)
qed






lemma is_double_of_nat:
  assumes "0 < n" and "n < 2 ^ 53"
  shows "round_double (real n) = Num (real n)"
proof -
  have "int n < 2 ^ 53" using assms(2) by (simp add: of_nat_less_iff [of n "2 ^ 53", where ?'a = int, simplified])
  moreover have "real_of_int (int n) * 2 powr of_int 0 < 2 ^ 1024"
  proof -
    have "real n < 2 ^ 53" using assms(2) by (simp add: of_nat_less_iff [of n "2 ^ 53", where ?'a = real, simplified])
    also have "(2::real) ^ 53 < 2 ^ 1024" by simp
    finally show ?thesis by simp
  qed
  ultimately have "is_double (of_int (int n) * 2 powr of_int 0)"
    using assms(1) by (intro is_double_intro) simp_all
  then show ?thesis by (simp add: is_double_def)
qed



section \<open>Retry with backoff: properties\<close>

lemma state_after_Suc: "state_after fn (Suc k) s = state_after fn k (snd (fn s))"
  using funpow_swap1 [of "\<lambda>s. snd (fn s)" k s] by (simp add: state_after_def)

lemma always_failsD:
  assumes "always_fails fn"
  shows "\<exists>e s'. fn s = (Inl e, s')"
proof -
  from assms have "isl (fst (fn s))" by (simp add: always_fails_def)
  then show ?thesis by (cases "fn s") (auto simp: isl_def)
qed

text \<open>
  With \<open>k\<close> attempts left before \<open>retries\<close> reaches \<open>maxRetries\<close>, an operation that
  always fails is called \<open>k\<close> times, each call followed by a sleep, and the promise is
  rejected with the error of the last call.
\<close>

lemma retry_all_fail:
  assumes "always_fails fn"
  shows "retries + k = maxRetries \<Longrightarrow> 0 < k \<Longrightarrow> k \<le> fuel \<Longrightarrow>
     \<exists>w'. retryAndBackoff fuel random fn True retries maxRetries base w
            = Rejected (projl (outcome_of_attempt fn (k - 1) (op_state w))) w'
          \<and> invocations w' = invocations w + k
          \<and> op_state w' = state_after fn k (op_state w)
          \<and> length (sleeps w') = length (sleeps w) + k"
proof (induction k arbitrary: retries fuel w)
  case 0
  then show ?case by simp
next
  case (Suc k)
  from Suc.prems obtain fuel' where fuel: "fuel = Suc fuel'" "k \<le> fuel'"
    by (cases fuel) auto
  from always_failsD [OF assms] obtain e s' where fn: "fn (op_state w) = (Inl e, s')"
    by blast
  show ?case
  proof (cases "k = 0")
    case True
    with Suc.prems fn fuel show ?thesis
      by (simp add: call_def Math_random_def sleep_def outcome_of_attempt_def state_after_def)
  next
    case False
    define w3 where "w3 = sleep (js_mul (Num (random (draws w))) (js_mul (Math_pow_2 retries) base))
        ((w\<lparr>op_state := s', invocations := invocations w + 1\<rparr>)\<lparr>draws := draws w + 1\<rparr>)"
    have step: "retryAndBackoff fuel random fn True retries maxRetries base w
      = retryAndBackoff fuel' random fn True (retries + 1) maxRetries base w3"
      using False Suc.prems fn fuel
      by (simp add: call_def Math_random_def w3_def Let_def)
    from Suc.IH [of "retries + 1" fuel' w3] Suc.prems False fuel
    obtain w' where w': "retryAndBackoff fuel' random fn True (retries + 1) maxRetries base w3
            = Rejected (projl (outcome_of_attempt fn (k - 1) (op_state w3))) w'"
          "invocations w' = invocations w3 + k"
          "op_state w' = state_after fn k (op_state w3)"
          "length (sleeps w') = length (sleeps w3) + k"
      by auto
    have w3: "op_state w3 = s'" "invocations w3 = invocations w + 1"
       "length (sleeps w3) = length (sleeps w) + 1"
      by (simp_all add: w3_def sleep_def)
    have "outcome_of_attempt fn (Suc k - 1) (op_state w) = outcome_of_attempt fn (k - 1) s'"
      using False fn by (cases k) (simp_all add: outcome_of_attempt_def state_after_Suc)
    moreover have "state_after fn (Suc k) (op_state w) = state_after fn k s'"
      using fn by (simp add: state_after_Suc)
    ultimately show ?thesis
      using step w' w3 by simp
  qed
qed

text \<open>
  Claim C2. An operation that fails on every call, retried with \<open>isRetryable = true\<close>,
  \<open>retries = 0\<close> and \<open>maxRetries = N\<close>, \<open>N \<ge> 1\<close>, is called exactly \<open>N\<close> times, and the
  promise is rejected with the error of the \<open>N\<close>-th call, unchanged. With
  \<open>isRetryable = false\<close> it is called once, never sleeps, and the promise is rejected with
  the error of that call. The bound on the attempts the model follows is at least \<open>N\<close>.
\<close>

theorem retryAndBackoff_always_failing:
  assumes "always_fails fn" and "1 \<le> N" and "N \<le> fuel"
  shows "(\<exists>w'. retryAndBackoff fuel random fn True 0 N base w
                 = Rejected (projl (outcome_of_attempt fn (N - 1) (op_state w))) w'
               \<and> invocations w' = invocations w + N)
       \<and> (\<exists>w'. retryAndBackoff fuel random fn False 0 N base w
                 = Rejected (projl (outcome_of_attempt fn 0 (op_state w))) w'
               \<and> invocations w' = invocations w + 1 \<and> sleeps w' = sleeps w)"
proof
  from retry_all_fail [OF assms(1), of 0 N N fuel random base w] assms
  show "\<exists>w'. retryAndBackoff fuel random fn True 0 N base w
                 = Rejected (projl (outcome_of_attempt fn (N - 1) (op_state w))) w'
               \<and> invocations w' = invocations w + N"
    by auto
next
  from assms obtain fuel' where fuel: "fuel = Suc fuel'" by (cases fuel) auto
  from always_failsD [OF assms(1)] obtain e s' where fn: "fn (op_state w) = (Inl e, s')"
    by blast
  show "\<exists>w'. retryAndBackoff fuel random fn False 0 N base w
                 = Rejected (projl (outcome_of_attempt fn 0 (op_state w))) w'
               \<and> invocations w' = invocations w + 1 \<and> sleeps w' = sleeps w"
    using fn by (simp add: fuel call_def outcome_of_attempt_def state_after_def)
qed

theorem retryAndBackoff_always_failing_witness:
  "always_fails failing_op \<and> (1::nat) \<le> 3 \<and> (3::nat) \<le> 5
   \<and> retryAndBackoff 5 (\<lambda>k. 1 / 2) failing_op True 0 3 (Num 50) fresh_world
       = Rejected ''third''
           \<lparr>op_state = 3, invocations = 3, sleeps = [Num 25, Num 50, Num 100], draws = 3\<rparr>
   \<and> projl (outcome_of_attempt failing_op (3 - 1) (op_state fresh_world)) = ''third''
   \<and> retryAndBackoff 5 (\<lambda>k. 1 / 2) failing_op False 0 3 (Num 50) fresh_world
       = Rejected ''other'' \<lparr>op_state = 1, invocations = 1, sleeps = [], draws = 0\<rparr>"
proof -
  have rd: "round_double 25 = Num 25" "round_double 50 = Num 50"
    "round_double 100 = Num 100" "round_double 200 = Num 200"
    using is_double_of_nat [of 25] is_double_of_nat [of 50]
      is_double_of_nat [of 100] is_double_of_nat [of 200]
    by simp_all
  show ?thesis
    using retryAndBackoff_always_failing [of failing_op 3 5 "\<lambda>k. 1 / 2" "Num 50" fresh_world]
    by (simp add: always_fails_def failing_op_def fresh_world_def call_def Math_random_def
          sleep_def numeral_nat outcome_of_attempt_def state_after_def Math_pow_2_def rd)
qed




section \<open>Tag sanitizers: properties\<close>

lemmas sanitize_defs = sanitizeGithubWorkflowName_def sanitizeGitHubVariables_def
  workflow_name_class_def github_variable_class_def tag_value_class_def conforms_def ucd_excerpt_def
  SANITIZATION_CHARACTER_def MAX_TAG_VALUE_LENGTH_def isLeadSurrogate_def isTrailSurrogate_def
  codePointOfPair_def straddling_name_def

lemma replace_outside_u_unit:
  "\<not> isLeadSurrogate u \<Longrightarrow>
     replace_outside_u cls r (u # s) = (if cls (unat u) then u else r) # replace_outside_u cls r s"
  by (cases s) auto

lemma replace_outside_u_replicate:
  "\<not> isLeadSurrogate u \<Longrightarrow> cls (unat u) \<Longrightarrow>
     replace_outside_u cls r (replicate n u @ s) = replicate n u @ replace_outside_u cls r s"
  by (induction n) (simp_all add: replace_outside_u_unit)

lemma code_points_unit:
  "\<not> isLeadSurrogate u \<Longrightarrow> code_points (u # s) = unat u # code_points s"
  by (cases s) auto

lemma code_points_replicate:
  "\<not> isLeadSurrogate u \<Longrightarrow> code_points (replicate n u @ s) = replicate n (unat u) @ code_points s"
  by (induction n) (simp_all add: code_points_unit)

lemma sanitizeGitHubVariables_straddling:
  "sanitizeGitHubVariables ucd_excerpt straddling_name = replicate 255 (of_char CHR ''a'') @ [0xD835]"
  by (simp add: sanitize_defs replace_outside_u_replicate)

lemma sanitizeGithubWorkflowName_straddling:
  "sanitizeGithubWorkflowName ucd_excerpt straddling_name = replicate 255 (of_char CHR ''a'') @ [0xD835]"
  by (simp add: sanitize_defs replace_outside_u_replicate)

lemma sanitizeGitHubVariables_cut:
  "sanitizeGitHubVariables ucd_excerpt (replicate 255 (of_char CHR ''a'') @ [0xD835])
     = replicate 255 (of_char CHR ''a'') @ [of_char CHR ''_'']"
  by (simp add: sanitize_defs replace_outside_u_replicate)

lemma sanitizeGithubWorkflowName_cut:
  "sanitizeGithubWorkflowName ucd_excerpt (replicate 255 (of_char CHR ''a'') @ [0xD835])
     = replicate 255 (of_char CHR ''a'') @ [of_char CHR ''_'']"
  by (simp add: sanitize_defs replace_outside_u_replicate)

lemma cut_not_conforms:
  "\<not> conforms ucd_excerpt (replicate 255 (of_char CHR ''a'') @ [0xD835])"
  by (simp add: sanitize_defs code_points_replicate)

text \<open>
  Claim C1. The sanitizer is to replace every character outside the class of letters,
  marks, separators, digits and \<open>_ . : / = + - @\<close> and to cut the result to 256 units,
  so that no character outside the class is left. The run on \<open>a;b\<close> shows
  \<open>sanitizeGithubWorkflowName\<close> keeping the semicolon, which its range \<open>.-@\<close> holds.
  The runs on 255 letters followed by a letter of two code units show both sanitizers
  cutting between the two units: the result ends with the lone lead surrogate U+D835,
  which is in no class.
\<close>

theorem sanitizer_leaves_characters_outside_class:
  "sanitizeGithubWorkflowName ucd_excerpt (js ''a;b'') = js ''a;b''
   \<and> \<not> conforms ucd_excerpt (js ''a;b'')
   \<and> sanitizeGitHubVariables ucd_excerpt straddling_name
       = replicate 255 (of_char CHR ''a'') @ [0xD835]
   \<and> sanitizeGithubWorkflowName ucd_excerpt straddling_name
       = replicate 255 (of_char CHR ''a'') @ [0xD835]
   \<and> \<not> conforms ucd_excerpt (replicate 255 (of_char CHR ''a'') @ [0xD835])"
proof -
  have "sanitizeGithubWorkflowName ucd_excerpt (js ''a;b'') = js ''a;b''"
    by (simp add: sanitize_defs js_def)
  moreover have "\<not> conforms ucd_excerpt (js ''a;b'')"
    by (simp add: sanitize_defs js_def)
  ultimately show ?thesis
    using sanitizeGitHubVariables_straddling sanitizeGithubWorkflowName_straddling cut_not_conforms
    by simp
qed

text \<open>
  Claim C9. The sanitizer is to be idempotent. On the same name of 255 letters followed
  by a letter of two code units, a second application of either sanitizer replaces the
  lone lead surrogate that the first one left, so the two results differ.
\<close>

theorem sanitizer_second_application_differs:
  "sanitizeGitHubVariables ucd_excerpt (sanitizeGitHubVariables ucd_excerpt straddling_name)
     \<noteq> sanitizeGitHubVariables ucd_excerpt straddling_name
   \<and> sanitizeGithubWorkflowName ucd_excerpt (sanitizeGithubWorkflowName ucd_excerpt straddling_name)
     \<noteq> sanitizeGithubWorkflowName ucd_excerpt straddling_name"
  unfolding sanitizeGitHubVariables_straddling sanitizeGithubWorkflowName_straddling
    sanitizeGitHubVariables_cut sanitizeGithubWorkflowName_cut
  by simp

lemma sanitizeGitHubVariables_length:
  "length (sanitizeGitHubVariables ucd name) \<le> 256"
  by (simp add: sanitizeGitHubVariables_def MAX_TAG_VALUE_LENGTH_def)

lemma sanitizeGithubWorkflowName_length:
  "length (sanitizeGithubWorkflowName ucd name) \<le> 256"
  by (simp add: sanitizeGithubWorkflowName_def MAX_TAG_VALUE_LENGTH_def)

text \<open>
  On names without a lead surrogate, \<open>sanitizeGitHubVariables\<close> does conform and is
  idempotent: the cut between the two units of a pair is its only defect.
\<close>

lemma replace_outside_u_no_lead:
  "\<forall>u\<in>set s. \<not> isLeadSurrogate u \<Longrightarrow>
     replace_outside_u cls r s = map (\<lambda>u. if cls (unat u) then u else r) s"
proof (induction s)
  case Nil
  show ?case by simp
next
  case (Cons u s)
  then have a: "\<not> isLeadSurrogate u" and b: "\<forall>u\<in>set s. \<not> isLeadSurrogate u" by simp_all
  have "replace_outside_u cls r (u # s)
          = (if cls (unat u) then u else r) # replace_outside_u cls r s"
    by (rule replace_outside_u_unit [OF a])
  also have "replace_outside_u cls r s = map (\<lambda>u. if cls (unat u) then u else r) s"
    by (rule Cons.IH [OF b])
  finally show ?case by simp
qed

lemma code_points_no_lead:
  "\<forall>u\<in>set s. \<not> isLeadSurrogate u \<Longrightarrow> code_points s = map unat s"
proof (induction s)
  case Nil
  show ?case by simp
next
  case (Cons u s)
  then have a: "\<not> isLeadSurrogate u" and b: "\<forall>u\<in>set s. \<not> isLeadSurrogate u" by simp_all
  have "code_points (u # s) = unat u # code_points s"
    by (rule code_points_unit [OF a])
  also have "code_points s = map unat s"
    by (rule Cons.IH [OF b])
  finally show ?case by simp
qed

lemma sanitizeGitHubVariables_no_lead:
  assumes "\<forall>u\<in>set name. \<not> isLeadSurrogate u"
  shows "conforms ucd (sanitizeGitHubVariables ucd name)
       \<and> sanitizeGitHubVariables ucd (sanitizeGitHubVariables ucd name)
           = sanitizeGitHubVariables ucd name"
proof -
  define g where "g = (\<lambda>u. if github_variable_class ucd (unat u) then u else SANITIZATION_CHARACTER)"
  define n where "n = MAX_TAG_VALUE_LENGTH"
  have r1: "\<not> isLeadSurrogate SANITIZATION_CHARACTER"
    by (simp add: SANITIZATION_CHARACTER_def isLeadSurrogate_def)
  have r2: "github_variable_class ucd (unat SANITIZATION_CHARACTER)"
    by (simp add: SANITIZATION_CHARACTER_def github_variable_class_def)
  have s: "sanitizeGitHubVariables ucd name = take n (map g name)"
    using replace_outside_u_no_lead [OF assms, of "github_variable_class ucd" SANITIZATION_CHARACTER]
    by (simp add: sanitizeGitHubVariables_def n_def g_def)
  have g1: "\<And>u. \<not> isLeadSurrogate u \<Longrightarrow> \<not> isLeadSurrogate (g u)"
    using r1 by (simp add: g_def)
  have g2: "\<And>u. github_variable_class ucd (unat (g u))"
    using r2 by (simp add: g_def)
  have sub: "set (take n (map g name)) \<subseteq> g ` set name"
    using set_take_subset [of n "map g name"] by simp
  have no_lead: "\<forall>u\<in>set (take n (map g name)). \<not> isLeadSurrogate u"
    using sub assms g1 by blast
  have cls: "\<forall>u\<in>set (take n (map g name)). github_variable_class ucd (unat u)"
    using sub g2 by blast
  have incl: "\<And>cp. github_variable_class ucd cp \<Longrightarrow> tag_value_class ucd cp"
    unfolding github_variable_class_def tag_value_class_def by blast
  have "list_all (tag_value_class ucd) (map unat (take n (map g name)))"
    using cls incl unfolding list_all_iff by auto
  then have c: "conforms ucd (sanitizeGitHubVariables ucd name)"
    unfolding s conforms_def code_points_no_lead [OF no_lead] .
  have "map g (take n (map g name)) = take n (map g name)"
  proof (rule map_idI)
    fix u assume "u \<in> set (take n (map g name))"
    with cls have "github_variable_class ucd (unat u)" by blast
    then show "g u = u" by (simp add: g_def)
  qed
  then have "take n (map g (take n (map g name))) = take n (map g name)"
    by simp
  then have i: "sanitizeGitHubVariables ucd (sanitizeGitHubVariables ucd name)
           = sanitizeGitHubVariables ucd name"
    using replace_outside_u_no_lead [OF no_lead, of "github_variable_class ucd" SANITIZATION_CHARACTER]
    unfolding s by (simp add: sanitizeGitHubVariables_def n_def g_def)
  from c i show ?thesis ..
qed

section \<open>Role assumption: properties\<close>

lemmas run_defs = assumeRole_def missing_environment_def resolveRoleArn_def startsWith_def isDefined_def
  js_def tagArray_def environmentTags_def sessionTags_def tagsDebug_def commonAssumeRoleParams_def
  delete_undefined_def delete_property_def optional_string_def dispatch_def directTokenFlow_def
  tokenFileFlow_def webIdentityTokenFilePath_def selectFlow_def roleResolvable_def Let_def
  example_host_def example_env_def example_params_def

lemma resolveRoleArn_resolvable:
  assumes "roleResolvable params"
  shows "\<exists>arn. resolveRoleArn (roleToAssume params) (sourceAccountId params) = Inr arn"
  using assms by (auto simp: roleResolvable_def resolveRoleArn_def)

lemma assumeRole_flow:
  assumes "\<not> missing_environment env" and "roleResolvable params"
  shows "\<exists>arn. assumeRole ucd host env params =
           (tagsDebug (sessionTags (roleSkipSessionTagging params) (environmentTags ucd env))
              # fst (dispatch host (region params)
                      (selectFlow host (string_value (GITHUB_WORKSPACE env)) params
                         (commonAssumeRoleParams arn params
                            (sessionTags (roleSkipSessionTagging params) (environmentTags ucd env))))),
            snd (dispatch host (region params)
                   (selectFlow host (string_value (GITHUB_WORKSPACE env)) params
                      (commonAssumeRoleParams arn params
                         (sessionTags (roleSkipSessionTagging params) (environmentTags ucd env))))))"
proof -
  from resolveRoleArn_resolvable [OF assms(2)] obtain arn :: js_string
    where "resolveRoleArn (roleToAssume params) (sourceAccountId params)
             = (Inr arn :: 'a thrown + js_string)"
    by blast
  with assms(1) show ?thesis
    by (intro exI [of _ arn]) (simp add: assumeRole_def Let_def case_prod_beta)
qed

lemma directTokenFlow_calls:
  "\<exists>cmd. dispatch host (region params) (directTokenFlow params common)
           = ([GetStsClient (region params), Send cmd],
              (case sts_send host (region params) cmd of
                 Inl failure \<Rightarrow> Inl (ProviderError failure) | Inr response \<Rightarrow> Inr response))
         \<and> cmd ''Tags'' = None
         \<and> cmd ''WebIdentityToken'' = Some (JSString (string_value (webIdentityToken params)))"
  by (simp add: directTokenFlow_def dispatch_def delete_property_def)

text \<open>
  Claim C3. With the environment complete and the role resolvable, a call with a truthy
  \<open>webIdentityToken\<close> and session tagging not skipped computes the tags (the debug
  message gives their number, which is not zero) and then sends a command that has no
  \<open>Tags\<close> property.
\<close>

theorem direct_token_request_has_no_Tags:
  assumes "\<not> missing_environment env" and "roleResolvable params"
    and "truthy (webIdentityToken params)"
    and "roleSkipSessionTagging params \<noteq> Some True"
  shows "\<exists>cmd. fst (assumeRole ucd host env params)
           = [Debug (decimal (length (environmentTags ucd env))
                     @ js '' role session tags are being used.''),
              GetStsClient (region params), Send cmd]
         \<and> environmentTags ucd env \<noteq> []
         \<and> cmd ''Tags'' = None"
proof -
  let ?Tags = "sessionTags (roleSkipSessionTagging params) (environmentTags ucd env)"
  from assumeRole_flow [OF assms(1,2)] obtain arn where
    run: "fst (assumeRole ucd host env params)
           = tagsDebug ?Tags
             # fst (dispatch host (region params)
                      (selectFlow host (string_value (GITHUB_WORKSPACE env)) params
                         (commonAssumeRoleParams arn params ?Tags)))"
    by (metis fst_conv)
  from directTokenFlow_calls obtain cmd where
    cmd: "fst (dispatch host (region params)
                 (directTokenFlow params (commonAssumeRoleParams arn params ?Tags)))
            = [GetStsClient (region params), Send cmd]" "cmd ''Tags'' = None"
    by (metis fst_conv)
  have tags: "tagsDebug ?Tags = Debug (decimal (length (environmentTags ucd env))
                     @ js '' role session tags are being used.'')"
    using assms(4) by (simp add: sessionTags_def tagsDebug_def)
  have "environmentTags ucd env \<noteq> []"
    by (simp add: environmentTags_def tagArray_def)
  with run cmd tags assms(3) show ?thesis
    by (simp add: selectFlow_def)
qed

theorem direct_token_request_has_no_Tags_witness:
  "\<not> missing_environment example_env \<and> roleResolvable example_params
   \<and> truthy (webIdentityToken example_params)
   \<and> roleSkipSessionTagging example_params \<noteq> Some True
   \<and> (\<exists>cmd. fst (assumeRole ucd_excerpt example_host example_env example_params)
           = [Debug (js ''6 role session tags are being used.''),
              GetStsClient (js ''us-east-1''), Send cmd]
         \<and> cmd ''Tags'' = None)"
proof -
  have h: "\<not> missing_environment example_env" "roleResolvable example_params"
     "truthy (webIdentityToken example_params)"
     "roleSkipSessionTagging example_params \<noteq> Some True"
    by (simp_all add: run_defs)
  have "decimal (length (environmentTags ucd_excerpt example_env))
          @ js '' role session tags are being used.''
        = js ''6 role session tags are being used.''"
    by (simp add: run_defs decimal.simps)
  moreover have "region example_params = js ''us-east-1''"
    by (simp add: example_params_def)
  ultimately show ?thesis
    using direct_token_request_has_no_Tags [OF h, of ucd_excerpt example_host] h by auto
qed

lemma tagsDebug_is_Debug: "\<exists>m. tagsDebug T = Debug m"
  by (cases T) (simp_all add: tagsDebug_def)

text \<open>
  Claim C4. With the environment complete and the role resolvable, a call with a
  non-empty \<open>webIdentityToken\<close> and a \<open>webIdentityTokenFile\<close> sends a command whose
  \<open>WebIdentityToken\<close> is the given token, and before that calls neither
  \<open>fs.existsSync\<close> nor \<open>readFile\<close>.
\<close>

theorem direct_token_takes_priority:
  assumes "\<not> missing_environment env" and "roleResolvable params"
    and "webIdentityToken params = Some token" and "token \<noteq> []"
    and "webIdentityTokenFile params = Some file"
  shows "\<exists>calls cmd.
           assumeRole ucd host env params
             = (calls @ [Send cmd],
                (case sts_send host (region params) cmd of
                   Inl failure \<Rightarrow> Inl (ProviderError failure)
                 | Inr response \<Rightarrow> Inr response))
         \<and> cmd ''WebIdentityToken'' = Some (JSString token)
         \<and> (\<forall>p. ExistsSync p \<notin> set calls \<and> ReadFile p \<notin> set calls)"
proof -
  let ?Tags = "sessionTags (roleSkipSessionTagging params) (environmentTags ucd env)"
  from assumeRole_flow [OF assms(1,2)] obtain arn where
    run: "assumeRole ucd host env params
           = (tagsDebug ?Tags
                # fst (dispatch host (region params)
                        (selectFlow host (string_value (GITHUB_WORKSPACE env)) params
                           (commonAssumeRoleParams arn params ?Tags))),
              snd (dispatch host (region params)
                     (selectFlow host (string_value (GITHUB_WORKSPACE env)) params
                        (commonAssumeRoleParams arn params ?Tags))))"
    by blast
  have flow: "selectFlow host (string_value (GITHUB_WORKSPACE env)) params
                (commonAssumeRoleParams arn params ?Tags)
              = directTokenFlow params (commonAssumeRoleParams arn params ?Tags)"
    using assms(3,4) by (simp add: selectFlow_def)
  from directTokenFlow_calls [of host params "commonAssumeRoleParams arn params ?Tags"]
  obtain cmd where
    cmd: "dispatch host (region params)
            (directTokenFlow params (commonAssumeRoleParams arn params ?Tags))
           = ([GetStsClient (region params), Send cmd],
              (case sts_send host (region params) cmd of
                 Inl failure \<Rightarrow> Inl (ProviderError failure) | Inr response \<Rightarrow> Inr response))"
      "cmd ''WebIdentityToken'' = Some (JSString (string_value (webIdentityToken params)))"
    by blast
  from tagsDebug_is_Debug obtain m where m: "tagsDebug ?Tags = Debug m" by blast
  have "assumeRole ucd host env params
          = ([Debug m, GetStsClient (region params)] @ [Send cmd],
             (case sts_send host (region params) cmd of
                 Inl failure \<Rightarrow> Inl (ProviderError failure) | Inr response \<Rightarrow> Inr response))"
    using run flow cmd(1) m by simp
  moreover have "cmd ''WebIdentityToken'' = Some (JSString token)"
    using cmd(2) assms(3) by simp
  moreover have "\<forall>p. ExistsSync p \<notin> set [Debug m, GetStsClient (region params)]
                   \<and> ReadFile p \<notin> set [Debug m, GetStsClient (region params)]"
    by simp
  ultimately show ?thesis by blast
qed

theorem direct_token_takes_priority_witness:
  "\<not> missing_environment example_env \<and> roleResolvable example_params
   \<and> webIdentityToken example_params = Some (js ''direct-token'') \<and> js ''direct-token'' \<noteq> []
   \<and> webIdentityTokenFile example_params = Some (js ''token.txt'')
   \<and> (\<exists>calls cmd.
           assumeRole ucd_excerpt example_host example_env example_params
             = (calls @ [Send cmd], Inr ''credentials'')
         \<and> cmd ''WebIdentityToken'' = Some (JSString (js ''direct-token''))
         \<and> (\<forall>p. ExistsSync p \<notin> set calls \<and> ReadFile p \<notin> set calls))"
proof -
  have h: "\<not> missing_environment example_env" "roleResolvable example_params"
     "webIdentityToken example_params = Some (js ''direct-token'')" "js ''direct-token'' \<noteq> []"
     "webIdentityTokenFile example_params = Some (js ''token.txt'')"
    by (simp_all add: run_defs)
  have "\<And>r cmd. sts_send example_host r cmd = Inr ''credentials''"
    by (simp add: example_host_def)
  then show ?thesis
    using direct_token_takes_priority [OF h, of ucd_excerpt example_host] h by simp
qed

text \<open>
  Claim C6. With the environment complete, a call whose \<open>roleToAssume\<close> does not start
  with \<open>arn:aws\<close> and whose \<open>sourceAccountId\<close> is absent throws the assertion error
  about the source account, and makes no call at all before: no client is created
  and nothing is sent.
\<close>

theorem short_role_without_account_fails:
  assumes "\<not> startsWith (roleToAssume params) (js ''arn:aws'')"
    and "sourceAccountId params = None"
    and "\<not> missing_environment env"
  shows "assumeRole ucd host env params
           = ([], Inl (AssertionError (js
                ''Source Account ID is needed if the Role Name is provided and not the Role Arn.'')))"
  using assms by (simp add: assumeRole_def resolveRoleArn_def isDefined_def)

theorem short_role_without_account_fails_witness:
  "\<not> startsWith (roleToAssume (example_params\<lparr>roleToAssume := js ''deploy''\<rparr>)) (js ''arn:aws'')
   \<and> sourceAccountId (example_params\<lparr>roleToAssume := js ''deploy''\<rparr>) = None
   \<and> \<not> missing_environment example_env
   \<and> assumeRole ucd_excerpt example_host example_env (example_params\<lparr>roleToAssume := js ''deploy''\<rparr>)
       = ([], Inl (AssertionError (js
                ''Source Account ID is needed if the Role Name is provided and not the Role Arn.'')))"
proof -
  have h: "\<not> startsWith (roleToAssume (example_params\<lparr>roleToAssume := js ''deploy''\<rparr>)) (js ''arn:aws'')"
     "sourceAccountId (example_params\<lparr>roleToAssume := js ''deploy''\<rparr>) = None"
     "\<not> missing_environment example_env"
    by (simp_all add: run_defs)
  from short_role_without_account_fails [OF h, of ucd_excerpt example_host] h show ?thesis by simp
qed

text \<open>
  Claim C7. With the environment complete and the role resolvable, a call with a falsy
  \<open>webIdentityToken\<close> and a non-empty \<open>webIdentityTokenFile\<close> whose path does not exist
  throws the error that names the path: the file itself when \<open>path.isAbsolute\<close> holds
  of it, else \<open>path.join\<close> of the workspace and the file. Nothing is read and nothing is
  sent.
\<close>

theorem missing_token_file_fails:
  assumes "\<not> missing_environment env" and "roleResolvable params"
    and "\<not> truthy (webIdentityToken params)"
    and "webIdentityTokenFile params = Some file" and "file \<noteq> []"
    and "GITHUB_WORKSPACE env = Some workspace"
    and "\<not> fs_existsSync host
             (if path_isAbsolute host file then file else path_join host workspace file)"
  shows "snd (assumeRole ucd host env params)
           = Inl (Error (js ''Web identity token file does not exist: ''
                         @ (if path_isAbsolute host file then file
                            else path_join host workspace file)))
       \<and> (\<forall>p. ReadFile p \<notin> set (fst (assumeRole ucd host env params)))
       \<and> (\<forall>cmd. Send cmd \<notin> set (fst (assumeRole ucd host env params)))"
proof -
  let ?Tags = "sessionTags (roleSkipSessionTagging params) (environmentTags ucd env)"
  let ?path = "if path_isAbsolute host file then file else path_join host workspace file"
  from assumeRole_flow [OF assms(1,2)] obtain arn where
    run: "assumeRole ucd host env params
           = (tagsDebug ?Tags
                # fst (dispatch host (region params)
                        (selectFlow host (string_value (GITHUB_WORKSPACE env)) params
                           (commonAssumeRoleParams arn params ?Tags))),
              snd (dispatch host (region params)
                     (selectFlow host (string_value (GITHUB_WORKSPACE env)) params
                        (commonAssumeRoleParams arn params ?Tags))))"
    by blast
  have flow: "selectFlow host (string_value (GITHUB_WORKSPACE env)) params
                (commonAssumeRoleParams arn params ?Tags)
              = ([Debug (js (''webIdentityTokenFile provided. Will call ''
                     @ ''sts:AssumeRoleWithWebIdentity and take session tags from token contents.'')),
                  ExistsSync ?path],
                 Inl (Error (js ''Web identity token file does not exist: '' @ ?path)))"
    using assms(3-7)
    by (simp add: selectFlow_def tokenFileFlow_def webIdentityTokenFilePath_def Let_def)
  from tagsDebug_is_Debug obtain m where m: "tagsDebug ?Tags = Debug m" by blast
  show ?thesis
    unfolding run flow m by (simp add: dispatch_def)
qed

theorem missing_token_file_fails_witness:
  "\<not> missing_environment example_env
   \<and> roleResolvable (example_params\<lparr>webIdentityToken := None, webIdentityTokenFile := Some (js ''nope'')\<rparr>)
   \<and> \<not> truthy (webIdentityToken (example_params\<lparr>webIdentityToken := None, webIdentityTokenFile := Some (js ''nope'')\<rparr>))
   \<and> webIdentityTokenFile (example_params\<lparr>webIdentityToken := None, webIdentityTokenFile := Some (js ''nope'')\<rparr>) = Some (js ''nope'')
   \<and> js ''nope'' \<noteq> []
   \<and> GITHUB_WORKSPACE example_env = Some (js ''/work'')
   \<and> \<not> fs_existsSync example_host (js ''/work/nope'')
   \<and> snd (assumeRole ucd_excerpt example_host example_env
            (example_params\<lparr>webIdentityToken := None, webIdentityTokenFile := Some (js ''nope'')\<rparr>))
       = Inl (Error (js ''Web identity token file does not exist: /work/nope''))"
proof -
  let ?params = "example_params\<lparr>webIdentityToken := None, webIdentityTokenFile := Some (js ''nope'')\<rparr>"
  have path: "(if path_isAbsolute example_host (js ''nope'') then js ''nope''
               else path_join example_host (js ''/work'') (js ''nope'')) = js ''/work/nope''"
    by (simp add: example_host_def startsWith_def js_def)
  have h: "\<not> missing_environment example_env" "roleResolvable ?params"
     "\<not> truthy (webIdentityToken ?params)"
     "webIdentityTokenFile ?params = Some (js ''nope'')" "js ''nope'' \<noteq> []"
     "GITHUB_WORKSPACE example_env = Some (js ''/work'')"
     "\<not> fs_existsSync example_host
          (if path_isAbsolute example_host (js ''nope'') then js ''nope''
           else path_join example_host (js ''/work'') (js ''nope''))"
    by (simp_all add: run_defs)
  have msg: "js ''Web identity token file does not exist: '' @ js ''/work/nope''
             = js ''Web identity token file does not exist: /work/nope''"
    by (simp add: js_def)
  from missing_token_file_fails [OF h, of ucd_excerpt] h show ?thesis
    unfolding path msg by simp
qed


lemma tag_value_Actor:
  "tag_value (tagArray ucd repository workflow action actor sha ref) (js ''Actor'')
     = Some (sanitizeGithubActor actor)"
  by (simp add: tagArray_def js_def)

text \<open>
  Claim C5, as amended. The value of the \<open>Actor\<close> tag is the actor name with each
  \<open>[\<close> and each \<open>]\<close> replaced by \<open>_\<close>: it has the length of the actor name and every
  other unit of it is unchanged. It is neither cut to 256 units nor restricted to the
  character class of tag values.
\<close>

theorem actor_tag_replaces_brackets_only:
  assumes "GITHUB_ACTOR env = Some actor"
  shows "\<exists>v. tag_value (environmentTags ucd env) (js ''Actor'') = Some v
           \<and> length v = length actor
           \<and> (\<forall>i<length actor.
                 v ! i = (if actor ! i = of_char CHR ''['' \<or> actor ! i = of_char CHR '']''
                          then of_char CHR ''_'' else actor ! i))"
  using assms
  by (simp add: environmentTags_def tag_value_Actor sanitizeGithubActor_def replace_brackets_def
        SANITIZATION_CHARACTER_def)

theorem actor_tag_replaces_brackets_only_witness:
  "GITHUB_ACTOR example_env = Some (js ''dependabot[bot]'')
   \<and> tag_value (environmentTags ucd_excerpt example_env) (js ''Actor'') = Some (js ''dependabot_bot_'')
   \<and> (\<exists>v. tag_value (environmentTags ucd_excerpt example_env) (js ''Actor'') = Some v
           \<and> length v = length (js ''dependabot[bot]'')
           \<and> (\<forall>i<length (js ''dependabot[bot]'').
                 v ! i = (if js ''dependabot[bot]'' ! i = of_char CHR ''[''
                             \<or> js ''dependabot[bot]'' ! i = of_char CHR '']''
                          then of_char CHR ''_'' else js ''dependabot[bot]'' ! i)))"
proof -
  have h: "GITHUB_ACTOR example_env = Some (js ''dependabot[bot]'')"
    by (simp add: example_env_def)
  have "sanitizeGithubActor (js ''dependabot[bot]'') = js ''dependabot_bot_''"
    by (simp add: sanitizeGithubActor_def replace_brackets_def SANITIZATION_CHARACTER_def js_def)
  then have "tag_value (environmentTags ucd_excerpt example_env) (js ''Actor'')
               = Some (js ''dependabot_bot_'')"
    by (simp add: environmentTags_def tag_value_Actor example_env_def)
  with actor_tag_replaces_brackets_only [OF h, of ucd_excerpt] h show ?thesis by simp
qed

text \<open>
  Claim C5 as stated fails: for the actor \<open>a!b\<close> the tag value is \<open>a!b\<close>, with a
  character outside the class, and for an actor of 257 units it has 257 units.
\<close>

theorem actor_tag_counterexample:
  "tag_value (environmentTags ucd_excerpt (example_env\<lparr>GITHUB_ACTOR := Some (js ''a!b'')\<rparr>))
      (js ''Actor'') = Some (js ''a!b'')
   \<and> \<not> conforms ucd_excerpt (js ''a!b'')
   \<and> tag_value (environmentTags ucd_excerpt
         (example_env\<lparr>GITHUB_ACTOR := Some (replicate 257 (of_char CHR ''a''))\<rparr>))
      (js ''Actor'') = Some (replicate 257 (of_char CHR ''a''))
   \<and> \<not> length (replicate 257 (of_char CHR ''a'' :: code_unit)) \<le> 256"
proof -
  have "sanitizeGithubActor (js ''a!b'') = js ''a!b''"
    by (simp add: sanitizeGithubActor_def replace_brackets_def js_def)
  moreover have "sanitizeGithubActor (replicate 257 (of_char CHR ''a'')) = replicate 257 (of_char CHR ''a'')"
    by (simp add: sanitizeGithubActor_def replace_brackets_def)
  moreover have "\<not> conforms ucd_excerpt (js ''a!b'')"
    by (simp add: sanitize_defs js_def)
  ultimately show ?thesis
    by (simp add: environmentTags_def tag_value_Actor)
qed

lemma selectFlow_empty_token:
  "webIdentityToken params = Some [] \<Longrightarrow>
     selectFlow host ws params common = selectFlow host ws (params\<lparr>webIdentityToken := None\<rparr>) common"
  by (auto simp: selectFlow_def tokenFileFlow_def Let_def split: sum.splits prod.splits)

lemma selectFlow_empty_file:
  "webIdentityTokenFile params = Some [] \<Longrightarrow>
     selectFlow host ws params common
       = selectFlow host ws (params\<lparr>webIdentityTokenFile := None\<rparr>) common"
  by (auto simp: selectFlow_def directTokenFlow_def Let_def split: sum.splits prod.splits)

lemma commonAssumeRoleParams_token:
  "commonAssumeRoleParams arn (params\<lparr>webIdentityToken := t\<rparr>) Tags
     = commonAssumeRoleParams arn params Tags"
  "commonAssumeRoleParams arn (params\<lparr>webIdentityTokenFile := f\<rparr>) Tags
     = commonAssumeRoleParams arn params Tags"
  by (simp_all add: commonAssumeRoleParams_def)

text \<open>
  Claim C10. With the environment complete and the role resolvable, a call with the
  empty string as \<open>webIdentityToken\<close> behaves as the call without one, and likewise for
  \<open>webIdentityTokenFile\<close>. With the empty token and a truthy token file the call runs
  the token-file case; with the empty token and a falsy token file it throws the error
  that neither was provided.
\<close>

theorem empty_strings_are_not_provided:
  assumes "\<not> missing_environment env" and "roleResolvable params"
  shows "(webIdentityToken params = Some [] \<longrightarrow>
            assumeRole ucd host env params
              = assumeRole ucd host env (params\<lparr>webIdentityToken := None\<rparr>))
       \<and> (webIdentityTokenFile params = Some [] \<longrightarrow>
            assumeRole ucd host env params
              = assumeRole ucd host env (params\<lparr>webIdentityTokenFile := None\<rparr>))
       \<and> (webIdentityToken params = Some [] \<and> truthy (webIdentityTokenFile params) \<longrightarrow>
            (\<exists>common. assumeRole ucd host env params
               = (tagsDebug (sessionTags (roleSkipSessionTagging params) (environmentTags ucd env))
                    # fst (dispatch host (region params)
                            (tokenFileFlow host (string_value (GITHUB_WORKSPACE env)) params common)),
                  snd (dispatch host (region params)
                         (tokenFileFlow host (string_value (GITHUB_WORKSPACE env)) params common)))))
       \<and> (webIdentityToken params = Some [] \<and> \<not> truthy (webIdentityTokenFile params) \<longrightarrow>
            snd (assumeRole ucd host env params)
              = Inl (Error (js ''No web identity token or web identity token file provided.'')))"
proof -
  let ?Tags = "sessionTags (roleSkipSessionTagging params) (environmentTags ucd env)"
  from assumeRole_flow [OF assms] obtain arn where
    run: "assumeRole ucd host env params
           = (tagsDebug ?Tags
                # fst (dispatch host (region params)
                        (selectFlow host (string_value (GITHUB_WORKSPACE env)) params
                           (commonAssumeRoleParams arn params ?Tags))),
              snd (dispatch host (region params)
                     (selectFlow host (string_value (GITHUB_WORKSPACE env)) params
                        (commonAssumeRoleParams arn params ?Tags))))"
    by blast
  have a: "webIdentityToken params = Some [] \<longrightarrow>
            assumeRole ucd host env params
              = assumeRole ucd host env (params\<lparr>webIdentityToken := None\<rparr>)"
    by (auto simp: assumeRole_def Let_def selectFlow_empty_token commonAssumeRoleParams_token
          split: sum.splits)
  have b: "webIdentityTokenFile params = Some [] \<longrightarrow>
            assumeRole ucd host env params
              = assumeRole ucd host env (params\<lparr>webIdentityTokenFile := None\<rparr>)"
    by (auto simp: assumeRole_def Let_def selectFlow_empty_file commonAssumeRoleParams_token
          split: sum.splits)
  have c: "webIdentityToken params = Some [] \<and> truthy (webIdentityTokenFile params) \<longrightarrow>
            (\<exists>common. assumeRole ucd host env params
               = (tagsDebug ?Tags
                    # fst (dispatch host (region params)
                            (tokenFileFlow host (string_value (GITHUB_WORKSPACE env)) params common)),
                  snd (dispatch host (region params)
                         (tokenFileFlow host (string_value (GITHUB_WORKSPACE env)) params common))))"
    using run by (auto simp: selectFlow_def)
  have d: "webIdentityToken params = Some [] \<and> \<not> truthy (webIdentityTokenFile params) \<longrightarrow>
            snd (assumeRole ucd host env params)
              = Inl (Error (js ''No web identity token or web identity token file provided.''))"
    using run by (simp add: selectFlow_def dispatch_def)
  from a b c d show ?thesis by blast
qed

theorem empty_strings_are_not_provided_witness:
  "\<not> missing_environment example_env
   \<and> roleResolvable (example_params\<lparr>webIdentityToken := Some []\<rparr>)
   \<and> webIdentityToken (example_params\<lparr>webIdentityToken := Some []\<rparr>) = Some []
   \<and> truthy (webIdentityTokenFile (example_params\<lparr>webIdentityToken := Some []\<rparr>))
   \<and> assumeRole ucd_excerpt example_host example_env (example_params\<lparr>webIdentityToken := Some []\<rparr>)
       = assumeRole ucd_excerpt example_host example_env
           (example_params\<lparr>webIdentityToken := Some [], webIdentityToken := None\<rparr>)
   \<and> ExistsSync (js ''/work/token.txt'')
       \<in> set (fst (assumeRole ucd_excerpt example_host example_env
                     (example_params\<lparr>webIdentityToken := Some []\<rparr>)))
   \<and> \<not> truthy (webIdentityTokenFile
                 (example_params\<lparr>webIdentityToken := Some [], webIdentityTokenFile := Some []\<rparr>))
   \<and> assumeRole ucd_excerpt example_host example_env
         (example_params\<lparr>webIdentityToken := Some [], webIdentityTokenFile := Some []\<rparr>)
       = assumeRole ucd_excerpt example_host example_env
           (example_params\<lparr>webIdentityToken := Some [], webIdentityTokenFile := Some [],
              webIdentityTokenFile := None\<rparr>)
   \<and> snd (assumeRole ucd_excerpt example_host example_env
            (example_params\<lparr>webIdentityToken := Some [], webIdentityTokenFile := Some []\<rparr>))
       = Inl (Error (js ''No web identity token or web identity token file provided.''))"
proof -
  let ?p1 = "example_params\<lparr>webIdentityToken := Some []\<rparr>"
  let ?p2 = "example_params\<lparr>webIdentityToken := Some [], webIdentityTokenFile := Some []\<rparr>"
  have env: "\<not> missing_environment example_env"
    by (simp add: run_defs)
  have p1: "roleResolvable ?p1" "webIdentityToken ?p1 = Some []" "truthy (webIdentityTokenFile ?p1)"
    by (simp_all add: run_defs)
  have p2: "roleResolvable ?p2" "webIdentityToken ?p2 = Some []"
    "webIdentityTokenFile ?p2 = Some []" "\<not> truthy (webIdentityTokenFile ?p2)"
    by (simp_all add: run_defs)
  have calls: "ExistsSync (js ''/work/token.txt'')
       \<in> set (fst (assumeRole ucd_excerpt example_host example_env ?p1))"
    by (simp add: run_defs)
  from empty_strings_are_not_provided [OF env p1(1), of ucd_excerpt example_host] p1
  have "assumeRole ucd_excerpt example_host example_env ?p1
       = assumeRole ucd_excerpt example_host example_env (?p1\<lparr>webIdentityToken := None\<rparr>)"
    by blast
  moreover from empty_strings_are_not_provided [OF env p2(1), of ucd_excerpt example_host] p2
  have "assumeRole ucd_excerpt example_host example_env ?p2
         = assumeRole ucd_excerpt example_host example_env (?p2\<lparr>webIdentityTokenFile := None\<rparr>)
      \<and> snd (assumeRole ucd_excerpt example_host example_env ?p2)
         = Inl (Error (js ''No web identity token or web identity token file provided.''))"
    by blast
  ultimately show ?thesis
    using env p1 p2 calls by blast
qed

end
